theory Spec2Isabelle
  imports Main
begin

section \<open>SocketStream: a self-reconnecting web socket stream\<close>

text \<open>
  A shallow embedding of \<^verbatim>\<open>packages/polling/src/socketstream.ts\<close>. The class
  \<^verbatim>\<open>SocketStream\<close> owns a \<^verbatim>\<open>Poll\<close> (field \<^verbatim>\<open>connection\<close>), a transport factory
  (field \<^verbatim>\<open>connector\<close>), a message hook (field \<^verbatim>\<open>onmessage\<close>) and the current web
  socket (field \<^verbatim>\<open>socket\<close>). Web sockets are shared mutable objects, so they live in
  an explicit store indexed by reference; promises that are still pending live in a
  second store, because the closure installed on a socket's close slot keeps the
  capability to reject one of them.
\<close>

subsection \<open>Values\<close>

type_synonym addr = nat
type_synonym payload = string

text \<open>JavaScript exceptions as values: \<^verbatim>\<open>new Error(msg)\<close>, a \<^verbatim>\<open>TypeError\<close> raised by
  the runtime, or a DOM exception raised by a transport.\<close>

datatype error = Error string | TypeError string | DOMException string

text \<open>The functions that can sit in a callback slot. \<open>RejectWith p\<close> is the closure
  \<^verbatim>\<open>() => reject(new Error('socket stream has closed'))\<close> built by \<^verbatim>\<open>reconnect\<close>,
  where \<open>p\<close> is the promise whose \<^verbatim>\<open>reject\<close> it captured. \<open>UserFn n\<close> is a function
  supplied by the owner of the stream (opaque to the stream).\<close>

datatype handler = RejectWith nat | UserFn nat

datatype slot = OnOpen | OnClose | OnError | OnMessage

text \<open>The part of a \<^verbatim>\<open>WebSocket\<close> the class uses: four single-valued callback slots
  (\<^verbatim>\<open>null\<close> is \<open>None\<close>), whether \<^verbatim>\<open>close()\<close> has been called on it, and the behaviour of
  its \<^verbatim>\<open>send\<close> method, a black box that either returns or throws.\<close>

record websocket =
  ws_onopen :: "handler option"
  ws_onclose :: "handler option"
  ws_onerror :: "handler option"
  ws_onmessage :: "handler option"
  ws_closed :: bool
  ws_send :: "payload \<Rightarrow> error option"

text \<open>A promise is pending, fulfilled or rejected; once settled it never changes.\<close>

datatype promise_state = Pending | Fulfilled | Rejected error

text \<open>The promise an \<^verbatim>\<open>async\<close> function returns: one that is settled when the
  function returns and that nothing refers to (\<open>Immediate\<close>), or a reference into the
  promise store (\<open>Cell\<close>).\<close>

datatype promise = Immediate promise_state | Cell nat

text \<open>Modelled from the spec: the Poller (\<^verbatim>\<open>Poll\<close> of \<^verbatim>\<open>packages/polling\<close>, whose source
  is kept in another file). The stream uses only its \<^verbatim>\<open>isDisposed\<close> query
  and its \<^verbatim>\<open>dispose()\<close>, which "stops retries permanently".\<close>

record poll =
  poll_isDisposed :: bool

definition new_Poll :: poll where
  "new_Poll = \<lparr>poll_isDisposed = False\<rparr>"

definition poll_dispose :: "poll \<Rightarrow> poll" where
  "poll_dispose c = c\<lparr>poll_isDisposed := True\<rparr>"

text \<open>What the consumer of the async-iterable view receives when its wait ends.\<close>

datatype iter_result = EndOfSequence | IterationError error

text \<open>Every call the stream makes on a collaborator and every write to its transport
  reference, in the order made.\<close>

datatype effect =
    OnMessageFactoryCall nat
  | PollDispose
  | ConnectorCall
  | SocketRefWrite "addr option"
  | SlotWrite addr slot "handler option"
  | TransportClose addr
  | TransportSend addr payload
  | SignalClearData
  | StreamStop

subsection \<open>State\<close>

text \<open>The fields of a \<^verbatim>\<open>SocketStream\<close> (\<open>self_ref\<close> is the object's own reference,
  \<open>sender\<close> the argument of \<^verbatim>\<open>super(sender)\<close>), the state of the inherited
  \<^verbatim>\<open>Stream\<close>/\<^verbatim>\<open>Signal\<close> (\<open>listeners\<close>, \<open>awaiting\<close>, \<open>delivered\<close>), the two stores, and
  the effects so far.\<close>

record state =
  self_ref :: nat
  sender :: nat
  connection :: poll
  connector :: "(addr \<Rightarrow> websocket) \<Rightarrow> (error + addr) \<times> (addr \<Rightarrow> websocket)"
  onmessage :: "handler option"
  socket :: "addr option"
  listeners :: "nat list"
  awaiting :: "nat list"
  delivered :: "(nat \<times> iter_result) list"
  sockets :: "addr \<Rightarrow> websocket"
  promises :: "promise_state list"
  history :: "effect list"

definition logged :: "effect \<Rightarrow> state \<Rightarrow> state" where
  "logged e s = s\<lparr>history := history s @ [e]\<rparr>"

subsection \<open>Collaborators\<close>

text \<open>Writing a callback slot of the web socket at \<open>a\<close>: last writer wins.\<close>

fun write_slot :: "slot \<Rightarrow> handler option \<Rightarrow> websocket \<Rightarrow> websocket" where
  "write_slot OnOpen v w = w\<lparr>ws_onopen := v\<rparr>"
| "write_slot OnClose v w = w\<lparr>ws_onclose := v\<rparr>"
| "write_slot OnError v w = w\<lparr>ws_onerror := v\<rparr>"
| "write_slot OnMessage v w = w\<lparr>ws_onmessage := v\<rparr>"

definition set_slot :: "addr \<Rightarrow> slot \<Rightarrow> handler option \<Rightarrow> state \<Rightarrow> state" where
  "set_slot a k v s =
     logged (SlotWrite a k v) (s\<lparr>sockets := (sockets s)(a := write_slot k v (sockets s a))\<rparr>)"

text \<open>\<^verbatim>\<open>socket.close()\<close> without arguments: it never throws.\<close>

definition ws_close :: "addr \<Rightarrow> state \<Rightarrow> state" where
  "ws_close a s =
     logged (TransportClose a) (s\<lparr>sockets := (sockets s)(a := (sockets s a)\<lparr>ws_closed := True\<rparr>)\<rparr>)"

definition set_socket :: "addr option \<Rightarrow> state \<Rightarrow> state" where
  "set_socket v s = logged (SocketRefWrite v) (s\<lparr>socket := v\<rparr>)"

text \<open>Modelled from the spec: \<^verbatim>\<open>Signal.clearData(this)\<close> of \<^verbatim>\<open>packages/signaling\<close>
  (kept in another package): "clear all MessageBus listener/subscriber
  state".\<close>

definition signal_clearData :: "state \<Rightarrow> state" where
  "signal_clearData s = logged SignalClearData (s\<lparr>listeners := []\<rparr>)"

text \<open>Modelled from the spec: \<^verbatim>\<open>Stream.stop()\<close> of \<^verbatim>\<open>packages/signaling\<close> (kept in
  another package): "any consumer currently awaiting the next value receives
  end-of-sequence, not an error".\<close>

definition stream_stop :: "state \<Rightarrow> state" where
  "stream_stop s =
     logged StreamStop
       (s\<lparr>delivered := delivered s @ map (\<lambda>c. (c, EndOfSequence)) (awaiting s),
          awaiting := []\<rparr>)"

text \<open>Settling a promise: \<^verbatim>\<open>reject(e)\<close> on a promise that is not pending does nothing.\<close>

definition reject :: "nat \<Rightarrow> error \<Rightarrow> state \<Rightarrow> state" where
  "reject p e s =
     (if p < length (promises s) \<and> promises s ! p = Pending
      then s\<lparr>promises := (promises s)[p := Rejected e]\<rparr>
      else s)"

subsection \<open>The class\<close>

text \<open>The options of the constructor. The optional \<^verbatim>\<open>onmessage\<close> factory receives the
  stream's reference and returns a handler or \<^verbatim>\<open>null\<close>, or throws.\<close>

record options =
  opt_connector :: "(addr \<Rightarrow> websocket) \<Rightarrow> (error + addr) \<times> (addr \<Rightarrow> websocket)"
  opt_onmessage :: "(nat \<Rightarrow> error + handler option) option"

text \<open>\<^verbatim>\<open>constructor(sender, options)\<close>. After \<^verbatim>\<open>super(sender)\<close> the field initialisers
  run (\<^verbatim>\<open>connection = new Poll(...)\<close>, \<^verbatim>\<open>onmessage = null\<close>, \<^verbatim>\<open>socket = null\<close>), then the
  body. \<open>this\<close> is the reference of the object under construction; \<open>ws\<close> is the store of
  web sockets at that moment. \<^verbatim>\<open>options.onmessage?.(this) || null\<close> is \<^verbatim>\<open>null\<close> when no
  factory is given or when the factory returns \<^verbatim>\<open>null\<close>.\<close>

definition construct :: "nat \<Rightarrow> nat \<Rightarrow> options \<Rightarrow> (addr \<Rightarrow> websocket) \<Rightarrow> error + state" where
  "construct this sndr opts ws =
     (let s0 = \<lparr>self_ref = this, sender = sndr, connection = new_Poll,
                connector = opt_connector opts, onmessage = None, socket = None,
                listeners = [], awaiting = [], delivered = [],
                sockets = ws, promises = [], history = []\<rparr>
      in case opt_onmessage opts of
           None \<Rightarrow> Inr s0
         | Some f \<Rightarrow>
             (case f this of
                Inl e \<Rightarrow> Inl e
              | Inr None \<Rightarrow> Inr (logged (OnMessageFactoryCall this) s0)
              | Inr (Some h) \<Rightarrow>
                  Inr (logged (OnMessageFactoryCall this) (s0\<lparr>onmessage := Some h\<rparr>))))"

text \<open>\<^verbatim>\<open>get isDisposed()\<close>.\<close>

definition isDisposed :: "state \<Rightarrow> bool" where
  "isDisposed s = poll_isDisposed (connection s)"

text \<open>\<^verbatim>\<open>dispose()\<close>. The destructuring \<^verbatim>\<open>const { connection, socket } = this\<close> reads the
  socket before anything is changed.\<close>

definition dispose :: "state \<Rightarrow> state" where
  "dispose s0 =
     (let sock = socket s0;
          s1 = logged PollDispose (s0\<lparr>connection := poll_dispose (connection s0)\<rparr>);
          s2 = (case sock of
                  None \<Rightarrow> s1
                | Some a \<Rightarrow>
                    ws_close a
                      (set_slot a OnOpen None
                        (set_slot a OnMessage None
                          (set_slot a OnError None
                            (set_slot a OnClose None s1)))));
          s3 = set_socket None s2;
          s4 = signal_clearData s3
      in stream_stop s4)"

text \<open>\<^verbatim>\<open>send(data)\<close>. The non-null assertion \<^verbatim>\<open>this.socket!\<close> is erased by the compiler:
  when the field is \<^verbatim>\<open>null\<close>, reading its \<^verbatim>\<open>send\<close> property throws a \<^verbatim>\<open>TypeError\<close>.\<close>

definition send :: "payload \<Rightarrow> state \<Rightarrow> (error + unit) \<times> state" where
  "send d s =
     (if isDisposed s then (Inr (), s)
      else case socket s of
             None \<Rightarrow> (Inl (TypeError ''Cannot read properties of null (reading 'send')''), s)
           | Some a \<Rightarrow>
               (case ws_send (sockets s a) d of
                  None \<Rightarrow> (Inr (), logged (TransportSend a d) s)
                | Some e \<Rightarrow> (Inl e, logged (TransportSend a d) s)))"

text \<open>The connector is code of the stream's owner, and it runs in the middle of
  \<^verbatim>\<open>reconnect\<close>. Besides what it does to the web sockets (the field \<open>connector\<close>, a
  function of the store), it can hold the stream and call its public methods before it
  returns. These calls are not a function of the store, so they are an argument of the
  model: the list of calls the connector makes on the stream during this run, taken to
  come after its own work on the web sockets.\<close>

datatype api_call = CallSend payload | CallDispose

fun api :: "api_call \<Rightarrow> state \<Rightarrow> state" where
  "api (CallSend d) s = snd (send d s)"
| "api CallDispose s = dispose s"

fun reenter :: "api_call list \<Rightarrow> state \<Rightarrow> state" where
  "reenter [] s = s"
| "reenter (c # cs) s = reenter cs (api c s)"

text \<open>The executor passed to \<^verbatim>\<open>new Promise\<close> in \<^verbatim>\<open>reconnect\<close>; \<open>p\<close> is the promise whose
  \<^verbatim>\<open>reject\<close> it receives (its \<^verbatim>\<open>resolve\<close> is the ignored parameter \<^verbatim>\<open>_\<close>), \<open>cs\<close> the
  calls the connector makes on the stream. The connector may throw, before
  \<^verbatim>\<open>this.socket\<close> is assigned. After the connector returns, the source assigns and writes
  the two slots without looking at \<^verbatim>\<open>isDisposed\<close> again.\<close>

definition reconnect_executor_with ::
  "api_call list \<Rightarrow> nat \<Rightarrow> state \<Rightarrow> (error + unit) \<times> state" where
  "reconnect_executor_with cs p s =
     (case connector s (sockets s) of
        (Inl e, ws) \<Rightarrow> (Inl e, reenter cs (logged ConnectorCall (s\<lparr>sockets := ws\<rparr>)))
      | (Inr a, ws) \<Rightarrow>
          (let s1 = set_socket (Some a) (reenter cs (logged ConnectorCall (s\<lparr>sockets := ws\<rparr>)));
               s2 = set_slot a OnClose (Some (RejectWith p)) s1;
               s3 = set_slot a OnMessage (onmessage s2) s2
           in (Inr (), s3)))"

text \<open>The executor when the connector makes no call on the stream.\<close>

definition reconnect_executor :: "nat \<Rightarrow> state \<Rightarrow> (error + unit) \<times> state" where
  "reconnect_executor p s = reconnect_executor_with [] p s"

text \<open>\<^verbatim>\<open>new Promise(executor)\<close>: the promise is created pending, the executor runs at
  once, and an exception it throws rejects the promise.\<close>

definition new_Promise ::
  "(nat \<Rightarrow> state \<Rightarrow> (error + unit) \<times> state) \<Rightarrow> state \<Rightarrow> nat \<times> state" where
  "new_Promise executor s =
     (let p = length (promises s)
      in case executor p (s\<lparr>promises := promises s @ [Pending]\<rparr>) of
           (Inl e, s') \<Rightarrow> (p, reject p e s')
         | (Inr _, s') \<Rightarrow> (p, s'))"

text \<open>\<^verbatim>\<open>async reconnect()\<close>. An \<^verbatim>\<open>async\<close> function never throws to its caller: it
  returns a promise, here fulfilled at once when the stream is disposed, and
  otherwise settled as the inner promise is.\<close>

definition reconnect_with :: "api_call list \<Rightarrow> state \<Rightarrow> promise \<times> state" where
  "reconnect_with cs s =
     (if isDisposed s then (Immediate Fulfilled, s)
      else case new_Promise (reconnect_executor_with cs) s of (p, s') \<Rightarrow> (Cell p, s'))"

text \<open>\<^verbatim>\<open>reconnect()\<close> when the connector makes no call on the stream.\<close>

definition reconnect :: "state \<Rightarrow> promise \<times> state" where
  "reconnect s = reconnect_with [] s"

definition promise_state_of :: "state \<Rightarrow> promise \<Rightarrow> promise_state" where
  "promise_state_of s f = (case f of Immediate st \<Rightarrow> st | Cell p \<Rightarrow> promises s ! p)"

subsection \<open>The environment\<close>

text \<open>Modelled from the spec: a transport reporting closure invokes whatever sits in
  its close slot ("single-slot, last writer wins, null clears it"). A user function
  there is outside the stream; the closure of \<^verbatim>\<open>reconnect\<close> rejects its promise.\<close>

definition socket_stream_has_closed :: error where
  "socket_stream_has_closed = Error ''socket stream has closed''"

definition fire_close :: "addr \<Rightarrow> state \<Rightarrow> state" where
  "fire_close a s =
     (case ws_onclose (sockets s a) of
        None \<Rightarrow> s
      | Some (UserFn n) \<Rightarrow> s
      | Some (RejectWith p) \<Rightarrow> reject p socket_stream_has_closed s)"

text \<open>What can happen to a stream: its owner calls \<^verbatim>\<open>send\<close> or \<^verbatim>\<open>dispose\<close>, the Poller
  invokes the reconnection operation (with a connector that leaves the stream alone, or
  with one that makes the given calls on it), a transport reports closure.\<close>

datatype event =
  Send payload | Dispose | PollTick | SocketClosed addr | PollTickCalling "api_call list"

fun step :: "event \<Rightarrow> state \<Rightarrow> state" where
  "step (Send d) s = snd (send d s)"
| "step Dispose s = dispose s"
| "step PollTick s = snd (reconnect s)"
| "step (SocketClosed a) s = fire_close a s"
| "step (PollTickCalling cs) s = snd (reconnect_with cs s)"

fun run :: "event list \<Rightarrow> state \<Rightarrow> state" where
  "run [] s = s"
| "run (e # es) s = run es (step e s)"

subsection \<open>Auxiliary notions\<close>

text \<open>The state \<^verbatim>\<open>dispose()\<close> leaves behind: the Poller is disposed, no transport is
  referenced, no listener is registered and no consumer is waiting.\<close>

definition torn_down :: "state \<Rightarrow> bool" where
  "torn_down s = (isDisposed s \<and> socket s = None \<and> listeners s = [] \<and> awaiting s = [])"

text \<open>The effects that are invocations of the \<^verbatim>\<open>onmessage\<close> factory.\<close>

fun is_factory_call :: "effect \<Rightarrow> bool" where
  "is_factory_call (OnMessageFactoryCall n) = True"
| "is_factory_call e = False"

subsection \<open>Concrete streams\<close>

text \<open>A web socket as a factory hands it out; a factory that opens the socket at
  reference 7, or at reference 8 when the socket at 7 is in use, and sets its open slot; a factory that always throws; a stream as the
  constructor leaves it, with one listener and one waiting consumer attached since; the
  same stream with the throwing factory; and the stream after its first successful
  reconnection.\<close>

definition blank_ws :: websocket where
  "blank_ws = \<lparr>ws_onopen = None, ws_onclose = None, ws_onerror = None, ws_onmessage = None,
               ws_closed = False, ws_send = (\<lambda>d. None)\<rparr>"

definition example_connector :: "(addr \<Rightarrow> websocket) \<Rightarrow> (error + addr) \<times> (addr \<Rightarrow> websocket)" where
  "example_connector ws =
     (if ws_onclose (ws 7) = None
      then (Inr 7, ws(7 := blank_ws\<lparr>ws_onopen := Some (UserFn 5)\<rparr>))
      else (Inr 8, ws(8 := blank_ws\<lparr>ws_onopen := Some (UserFn 5)\<rparr>)))"

definition failing_connector :: "(addr \<Rightarrow> websocket) \<Rightarrow> (error + addr) \<times> (addr \<Rightarrow> websocket)" where
  "failing_connector ws = (Inl (DOMException ''SecurityError''), ws)"

definition example_options :: options where
  "example_options =
     \<lparr>opt_connector = example_connector, opt_onmessage = Some (\<lambda>this. Inr (Some (UserFn this)))\<rparr>"

definition fresh_stream :: state where
  "fresh_stream =
     \<lparr>self_ref = 3, sender = 4, connection = \<lparr>poll_isDisposed = False\<rparr>,
      connector = example_connector, onmessage = Some (UserFn 3), socket = None,
      listeners = [8], awaiting = [9], delivered = [],
      sockets = (\<lambda>a. blank_ws), promises = [], history = [OnMessageFactoryCall 3]\<rparr>"

definition refused_stream :: state where
  "refused_stream = fresh_stream\<lparr>connector := failing_connector\<rparr>"

definition connected_stream :: state where
  "connected_stream = snd (reconnect fresh_stream)"

section \<open>Properties\<close>

subsection \<open>Auxiliary facts\<close>

lemmas prim_defs = logged_def set_slot_def ws_close_def set_socket_def signal_clearData_def
  stream_stop_def poll_dispose_def isDisposed_def

text \<open>On a disposed stream \<^verbatim>\<open>send\<close> and \<^verbatim>\<open>reconnect\<close> take their first branch.\<close>

lemma send_disposed: "isDisposed s \<Longrightarrow> send d s = (Inr (), s)"
  by (simp add: send_def)

lemma reconnect_with_disposed:
  "isDisposed s \<Longrightarrow> reconnect_with cs s = (Immediate Fulfilled, s)"
  by (simp add: reconnect_with_def)

lemma reconnect_disposed: "isDisposed s \<Longrightarrow> reconnect s = (Immediate Fulfilled, s)"
  by (simp add: reconnect_def reconnect_with_disposed)

text \<open>A close event touches nothing but the promise store.\<close>

lemma fire_close_frame:
  "connection (fire_close a s) = connection s"
  "socket (fire_close a s) = socket s"
  "listeners (fire_close a s) = listeners s"
  "awaiting (fire_close a s) = awaiting s"
  "sockets (fire_close a s) = sockets s"
  "history (fire_close a s) = history s"
  by (simp_all add: fire_close_def reject_def split: option.splits handler.splits)

text \<open>\<^verbatim>\<open>dispose()\<close> establishes the torn-down state, every event preserves it, and on it
  \<^verbatim>\<open>dispose()\<close> only repeats four calls that change nothing.\<close>

lemma torn_down_dispose: "torn_down (dispose s)"
  by (simp add: torn_down_def dispose_def Let_def prim_defs split: option.splits)

lemma dispose_torn_down:
  "torn_down s \<Longrightarrow> dispose s = s\<lparr>history := history s @ [PollDispose, SocketRefWrite None, SignalClearData, StreamStop]\<rparr>"
  by (simp add: torn_down_def dispose_def Let_def prim_defs)

lemma torn_down_step: "torn_down s \<Longrightarrow> torn_down (step e s)"
proof (cases e)
  case (Send d)
  assume "torn_down s"
  then show ?thesis using Send by (simp add: torn_down_def send_disposed)
next
  case Dispose
  then show ?thesis by (simp add: torn_down_dispose)
next
  case PollTick
  assume "torn_down s"
  then show ?thesis using PollTick by (simp add: torn_down_def reconnect_disposed)
next
  case (SocketClosed a)
  assume "torn_down s"
  then show ?thesis using SocketClosed
    by (simp add: torn_down_def isDisposed_def fire_close_frame)
next
  case (PollTickCalling cs)
  assume "torn_down s"
  then show ?thesis using PollTickCalling by (simp add: torn_down_def reconnect_with_disposed)
qed

lemma torn_down_run: "torn_down s \<Longrightarrow> torn_down (run evs s)"
  by (induction evs arbitrary: s) (simp_all add: torn_down_step)

text \<open>The calls a connector makes on the stream leave the promise store, the stored
  hook and the factory alone, and invoke no \<^verbatim>\<open>onmessage\<close> factory.\<close>

lemma send_promises: "promises (snd (send d s)) = promises s"
  by (simp add: send_def logged_def split: option.splits)

lemma dispose_promises: "promises (dispose s) = promises s"
  by (simp add: dispose_def Let_def prim_defs split: option.splits)

lemma api_frame:
  "promises (api c s) = promises s"
  "onmessage (api c s) = onmessage s"
  "connector (api c s) = connector s"
  "filter is_factory_call (history (api c s)) = filter is_factory_call (history s)"
  by (cases c; simp add: send_def dispose_def Let_def prim_defs split: option.splits)+

lemma reenter_frame:
  "promises (reenter cs s) = promises s
   \<and> onmessage (reenter cs s) = onmessage s
   \<and> connector (reenter cs s) = connector s
   \<and> filter is_factory_call (history (reenter cs s)) = filter is_factory_call (history s)"
  by (induction cs arbitrary: s) (simp_all add: api_frame)

text \<open>The two outcomes of \<^verbatim>\<open>reconnect\<close> on a stream that is not disposed, in terms of
  the state the connector leaves.\<close>

lemma reconnect_with_ok:
  assumes "\<not> isDisposed s" "connector s (sockets s) = (Inr a, ws)"
  shows "reconnect_with cs s =
     (Cell (length (promises s)),
      set_slot a OnMessage (onmessage s)
        (set_slot a OnClose (Some (RejectWith (length (promises s))))
          (set_socket (Some a)
            (reenter cs
              (logged ConnectorCall (s\<lparr>promises := promises s @ [Pending], sockets := ws\<rparr>))))))"
  using assms
  by (simp add: reconnect_with_def new_Promise_def reconnect_executor_with_def Let_def
      reenter_frame set_slot_def set_socket_def logged_def)

lemma reconnect_with_throw:
  assumes "\<not> isDisposed s" "connector s (sockets s) = (Inl e, ws)"
  shows "reconnect_with cs s =
     (Cell (length (promises s)),
      (reenter cs (logged ConnectorCall (s\<lparr>promises := promises s @ [Pending], sockets := ws\<rparr>)))
        \<lparr>promises := promises s @ [Rejected e]\<rparr>)"
  using assms
  by (simp add: reconnect_with_def new_Promise_def reconnect_executor_with_def Let_def
      reenter_frame reject_def logged_def)

lemma reconnect_with_frame:
  "(promises (snd (reconnect_with cs s)) = promises s
     \<or> (\<exists>st. promises (snd (reconnect_with cs s)) = promises s @ [st]))
   \<and> onmessage (snd (reconnect_with cs s)) = onmessage s
   \<and> connector (snd (reconnect_with cs s)) = connector s
   \<and> filter is_factory_call (history (snd (reconnect_with cs s)))
       = filter is_factory_call (history s)"
proof (cases "isDisposed s")
  case True
  then show ?thesis by (simp add: reconnect_with_disposed)
next
  case False
  obtain r ws where c: "connector s (sockets s) = (r, ws)" by (cases "connector s (sockets s)")
  show ?thesis
  proof (cases r)
    case (Inl e)
    with False c show ?thesis
      by (simp add: reconnect_with_throw reenter_frame logged_def)
  next
    case (Inr a)
    with False c show ?thesis
      by (simp add: reconnect_with_ok reenter_frame set_slot_def set_socket_def logged_def)
  qed
qed

text \<open>The same for a connector that makes no call on the stream, as one state update
  each.\<close>

lemma reconnect_live_ok:
  assumes "\<not> isDisposed s" "connector s (sockets s) = (Inr a, ws)"
  shows "reconnect s =
     (Cell (length (promises s)),
      s\<lparr>socket := Some a,
        sockets := ws(a := (ws a)\<lparr>ws_onclose := Some (RejectWith (length (promises s))),
                                 ws_onmessage := onmessage s\<rparr>),
        promises := promises s @ [Pending],
        history := history s @ [ConnectorCall, SocketRefWrite (Some a),
                     SlotWrite a OnClose (Some (RejectWith (length (promises s)))),
                     SlotWrite a OnMessage (onmessage s)]\<rparr>)"
  using assms
  by (simp add: reconnect_def reconnect_with_def new_Promise_def reconnect_executor_with_def
      Let_def logged_def set_slot_def set_socket_def)

lemma reconnect_live_throw:
  assumes "\<not> isDisposed s" "connector s (sockets s) = (Inl e, ws)"
  shows "reconnect s =
     (Cell (length (promises s)),
      s\<lparr>sockets := ws,
        promises := promises s @ [Rejected e],
        history := history s @ [ConnectorCall]\<rparr>)"
  using assms
  by (simp add: reconnect_def reconnect_with_def new_Promise_def reconnect_executor_with_def
      Let_def logged_def reject_def)

text \<open>The promise store only grows, and a promise in it changes in one way only: from
  pending to rejected by a close event whose slot holds the closure for that promise.\<close>

lemma reconnect_promises_cases:
  "promises (snd (reconnect s)) = promises s
   \<or> (\<exists>st. promises (snd (reconnect s)) = promises s @ [st])"
proof (cases "isDisposed s")
  case True
  then show ?thesis by (simp add: reconnect_disposed)
next
  case False
  obtain r ws where c: "connector s (sockets s) = (r, ws)" by (cases "connector s (sockets s)")
  show ?thesis
  proof (cases r)
    case (Inl e)
    with False c show ?thesis by (simp add: reconnect_live_throw)
  next
    case (Inr a)
    with False c show ?thesis by (simp add: reconnect_live_ok)
  qed
qed

lemma step_promises_length: "length (promises s) \<le> length (promises (step e s))"
proof (cases e)
  case (Send d)
  then show ?thesis by (simp add: send_promises)
next
  case Dispose
  then show ?thesis by (simp add: dispose_promises)
next
  case PollTick
  then show ?thesis using reconnect_promises_cases [of s] by auto
next
  case (SocketClosed a)
  then show ?thesis
    by (simp add: fire_close_def reject_def split: option.splits handler.splits)
next
  case (PollTickCalling cs)
  then show ?thesis using reconnect_with_frame [of cs s] by auto
qed

lemma run_promises_length: "length (promises s) \<le> length (promises (run evs s))"
proof (induction evs arbitrary: s)
  case Nil
  then show ?case by simp
next
  case (Cons e es)
  have "length (promises s) \<le> length (promises (step e s))" by (rule step_promises_length)
  also have "\<dots> \<le> length (promises (run es (step e s)))" by (rule Cons.IH)
  finally show ?case by simp
qed

lemma step_promise:
  assumes "p < length (promises s)"
  shows "promises (step e s) ! p = promises s ! p
     \<or> (promises s ! p = Pending
        \<and> promises (step e s) ! p = Rejected socket_stream_has_closed
        \<and> (\<exists>b. e = SocketClosed b \<and> ws_onclose (sockets s b) = Some (RejectWith p)))"
proof (cases e)
  case (Send d)
  then show ?thesis by (simp add: send_promises)
next
  case Dispose
  then show ?thesis by (simp add: dispose_promises)
next
  case PollTick
  then show ?thesis using reconnect_promises_cases [of s] assms by (auto simp: nth_append)
next
  case (SocketClosed a)
  then show ?thesis using assms
    by (auto simp: fire_close_def reject_def nth_list_update split: option.splits handler.splits)
next
  case (PollTickCalling cs)
  then show ?thesis using reconnect_with_frame [of cs s] assms by (auto simp: nth_append)
qed

lemma run_promise:
  assumes "p < length (promises s)"
    and "promises s ! p = Pending \<or> promises s ! p = Rejected socket_stream_has_closed"
  shows "promises (run evs s) ! p = Pending
     \<or> promises (run evs s) ! p = Rejected socket_stream_has_closed"
  using assms
proof (induction evs arbitrary: s)
  case Nil
  then show ?case by simp
next
  case (Cons e es)
  have len: "p < length (promises (step e s))"
    using Cons.prems(1) step_promises_length [of s e] by simp
  have "promises (step e s) ! p = Pending
     \<or> promises (step e s) ! p = Rejected socket_stream_has_closed"
    using step_promise [OF Cons.prems(1), of e] Cons.prems(2) by auto
  from Cons.IH [OF len this] show ?case by simp
qed

lemma run_promise_settled:
  assumes "p < length (promises s)" and "promises s ! p \<noteq> Pending"
  shows "promises (run evs s) ! p = promises s ! p"
  using assms
proof (induction evs arbitrary: s)
  case Nil
  then show ?case by simp
next
  case (Cons e es)
  have len: "p < length (promises (step e s))"
    using Cons.prems(1) step_promises_length [of s e] by simp
  have same: "promises (step e s) ! p = promises s ! p"
    using step_promise [OF Cons.prems(1), of e] Cons.prems(2) by auto
  with Cons.prems(2) have "promises (step e s) ! p \<noteq> Pending" by simp
  from Cons.IH [OF len this] same show ?case by simp
qed

text \<open>No event changes the stored hook or the factory, or invokes the
  \<^verbatim>\<open>onmessage\<close> factory.\<close>

lemma step_onmessage: "onmessage (step e s) = onmessage s \<and> connector (step e s) = connector s"
proof (cases e)
  case (Send d)
  then show ?thesis by (simp add: send_def logged_def split: option.splits)
next
  case Dispose
  then show ?thesis by (simp add: dispose_def Let_def prim_defs split: option.splits)
next
  case PollTick
  obtain r ws where c: "connector s (sockets s) = (r, ws)" by (cases "connector s (sockets s)")
  show ?thesis
  proof (cases "isDisposed s")
    case True
    with PollTick show ?thesis by (simp add: reconnect_disposed)
  next
    case False
    with PollTick c show ?thesis
      by (cases r) (simp_all add: reconnect_live_ok reconnect_live_throw)
  qed
next
  case (SocketClosed a)
  then show ?thesis
    by (simp add: fire_close_def reject_def split: option.splits handler.splits)
next
  case (PollTickCalling cs)
  then show ?thesis by (simp add: reconnect_with_frame)
qed

lemma run_onmessage: "onmessage (run evs s) = onmessage s \<and> connector (run evs s) = connector s"
  by (induction evs arbitrary: s) (simp_all add: step_onmessage)

lemma step_factory_calls:
  "filter is_factory_call (history (step e s)) = filter is_factory_call (history s)"
proof (cases e)
  case (Send d)
  then show ?thesis by (simp add: send_def logged_def split: option.splits)
next
  case Dispose
  then show ?thesis by (simp add: dispose_def Let_def prim_defs split: option.splits)
next
  case PollTick
  obtain r ws where c: "connector s (sockets s) = (r, ws)" by (cases "connector s (sockets s)")
  show ?thesis
  proof (cases "isDisposed s")
    case True
    with PollTick show ?thesis by (simp add: reconnect_disposed)
  next
    case False
    with PollTick c show ?thesis
      by (cases r) (simp_all add: reconnect_live_ok reconnect_live_throw)
  qed
next
  case (SocketClosed a)
  then show ?thesis by (simp add: fire_close_frame)
next
  case (PollTickCalling cs)
  then show ?thesis by (simp add: reconnect_with_frame)
qed

lemma run_factory_calls:
  "filter is_factory_call (history (run evs s)) = filter is_factory_call (history s)"
  by (induction evs arbitrary: s) (simp_all add: step_factory_calls)

text \<open>Facts about the concrete streams.\<close>

lemma fresh_stream_live: "\<not> isDisposed fresh_stream"
  by (simp add: fresh_stream_def isDisposed_def)

lemma fresh_stream_connector:
  "connector fresh_stream (sockets fresh_stream) =
     (Inr 7, (\<lambda>a. blank_ws)(7 := blank_ws\<lparr>ws_onopen := Some (UserFn 5)\<rparr>))"
  by (simp add: fresh_stream_def example_connector_def blank_ws_def)

lemma connected_stream_eq:
  "connected_stream =
     fresh_stream\<lparr>socket := Some 7,
        sockets := (\<lambda>a. blank_ws)(7 := blank_ws\<lparr>ws_onopen := Some (UserFn 5),
                       ws_onclose := Some (RejectWith 0), ws_onmessage := Some (UserFn 3)\<rparr>),
        promises := [Pending],
        history := [OnMessageFactoryCall 3, ConnectorCall, SocketRefWrite (Some 7),
                    SlotWrite 7 OnClose (Some (RejectWith 0)),
                    SlotWrite 7 OnMessage (Some (UserFn 3))]\<rparr>"
  unfolding connected_stream_def
  by (simp add: reconnect_live_ok [OF fresh_stream_live fresh_stream_connector])
     (simp add: fresh_stream_def)

lemma connected_stream_fields:
  "socket connected_stream = Some 7"
  "awaiting connected_stream = [9]"
  "delivered connected_stream = []"
  "listeners connected_stream = [8]"
  "history connected_stream =
     [OnMessageFactoryCall 3, ConnectorCall, SocketRefWrite (Some 7),
      SlotWrite 7 OnClose (Some (RejectWith 0)), SlotWrite 7 OnMessage (Some (UserFn 3))]"
  "sockets connected_stream 7 =
     blank_ws\<lparr>ws_onopen := Some (UserFn 5), ws_onclose := Some (RejectWith 0),
              ws_onmessage := Some (UserFn 3)\<rparr>"
  "\<not> isDisposed connected_stream"
  by (simp_all add: connected_stream_eq fresh_stream_def isDisposed_def)

subsection \<open>send\<close>

text \<open>C1. On a stream whose \<^verbatim>\<open>isDisposed\<close> is true, \<^verbatim>\<open>send(payload)\<close> returns normally and
  leaves the whole state as it was: no field, no web socket, no promise and no entry of
  the effect history changes, so no operation of any transport is invoked. After
  \<^verbatim>\<open>dispose()\<close>, and after any further events, the stream is in that situation, for
  every payload.\<close>

theorem send_after_dispose_is_silent:
  "(isDisposed t \<longrightarrow> send d t = (Inr (), t))
   \<and> send d (run evs (dispose s)) = (Inr (), run evs (dispose s))"
proof -
  have "torn_down (run evs (dispose s))" by (simp add: torn_down_run torn_down_dispose)
  then have "isDisposed (run evs (dispose s))" by (simp add: torn_down_def)
  then show ?thesis by (simp add: send_disposed)
qed

theorem send_after_dispose_is_silent_witness:
  "isDisposed (dispose fresh_stream)
   \<and> send ''z'' (dispose fresh_stream) = (Inr (), dispose fresh_stream)
   \<and> send ''z'' (run [PollTick, Send ''y''] (dispose fresh_stream))
       = (Inr (), run [PollTick, Send ''y''] (dispose fresh_stream))"
proof -
  have h: "isDisposed (dispose fresh_stream)"
    by (simp add: fresh_stream_def dispose_def Let_def prim_defs)
  show ?thesis
    using h send_after_dispose_is_silent
        [where t = "dispose fresh_stream" and d = "''z''" and s = fresh_stream
           and evs = "[PollTick, Send ''y'']"]
    by simp
qed

text \<open>C7. On a stream that is not disposed and has no current transport, \<^verbatim>\<open>send(payload)\<close>
  throws to its caller (the \<^verbatim>\<open>TypeError\<close> of calling \<^verbatim>\<open>send\<close> on \<^verbatim>\<open>null\<close>) and leaves
  the state as it was: the payload is neither buffered nor queued, and the call does not
  succeed silently.\<close>

theorem send_without_socket_throws:
  "\<not> isDisposed s \<Longrightarrow> socket s = None \<Longrightarrow>
   send d s = (Inl (TypeError ''Cannot read properties of null (reading 'send')''), s)"
  by (simp add: send_def)

theorem send_without_socket_throws_witness:
  "\<not> isDisposed fresh_stream \<and> socket fresh_stream = None
   \<and> send ''x'' fresh_stream =
       (Inl (TypeError ''Cannot read properties of null (reading 'send')''), fresh_stream)"
proof -
  have h1: "\<not> isDisposed fresh_stream" by (rule fresh_stream_live)
  have h2: "socket fresh_stream = None" by (simp add: fresh_stream_def)
  show ?thesis using h1 h2 send_without_socket_throws [OF h1 h2, of "''x''"] by simp
qed

subsection \<open>dispose\<close>

text \<open>C5. \<^verbatim>\<open>dispose()\<close> performs exactly these effects, in this order: it disposes the
  Poller; if a transport is stored, it nulls the four callback slots of that transport
  (close, error, message, open) and calls its \<^verbatim>\<open>close()\<close>; it clears the stored transport
  reference; it clears the listeners; it stops the async-iterable view. Afterwards the
  stream is disposed, the transport that was stored has four empty slots and is closed,
  no other transport has changed, no listener is left, and every consumer that was
  awaiting the next value has received end-of-sequence.\<close>

theorem dispose_effects_in_order:
  "history (dispose s) =
     history s @ [PollDispose]
       @ (case socket s of
            None \<Rightarrow> []
          | Some a \<Rightarrow> [SlotWrite a OnClose None, SlotWrite a OnError None,
                       SlotWrite a OnMessage None, SlotWrite a OnOpen None, TransportClose a])
       @ [SocketRefWrite None, SignalClearData, StreamStop]
   \<and> isDisposed (dispose s)
   \<and> sockets (dispose s) =
       (case socket s of
          None \<Rightarrow> sockets s
        | Some a \<Rightarrow> (sockets s)(a := (sockets s a)\<lparr>ws_onclose := None, ws_onerror := None,
                        ws_onmessage := None, ws_onopen := None, ws_closed := True\<rparr>))
   \<and> socket (dispose s) = None
   \<and> listeners (dispose s) = []
   \<and> awaiting (dispose s) = []
   \<and> delivered (dispose s) = delivered s @ map (\<lambda>c. (c, EndOfSequence)) (awaiting s)
   \<and> promises (dispose s) = promises s"
  by (simp add: dispose_def Let_def prim_defs split: option.splits)

theorem dispose_effects_in_order_witness:
  "history (dispose connected_stream) =
     [OnMessageFactoryCall 3, ConnectorCall, SocketRefWrite (Some 7),
      SlotWrite 7 OnClose (Some (RejectWith 0)), SlotWrite 7 OnMessage (Some (UserFn 3)),
      PollDispose, SlotWrite 7 OnClose None, SlotWrite 7 OnError None,
      SlotWrite 7 OnMessage None, SlotWrite 7 OnOpen None, TransportClose 7,
      SocketRefWrite None, SignalClearData, StreamStop]
   \<and> sockets (dispose connected_stream) 7 = blank_ws\<lparr>ws_closed := True\<rparr>
   \<and> socket (dispose connected_stream) = None
   \<and> listeners (dispose connected_stream) = []
   \<and> delivered (dispose connected_stream) = [(9, EndOfSequence)]"
  using dispose_effects_in_order [of connected_stream]
  by (simp add: connected_stream_fields blank_ws_def)

text \<open>C2. \<^verbatim>\<open>dispose()\<close> is idempotent. A second call, made at once or after any further
  events, leaves every component of the state (Poller, transport reference, every web
  socket, listeners, consumers, promises) as the first call left it; it only repeats the
  calls to the Poller's \<^verbatim>\<open>dispose\<close>, the write of \<^verbatim>\<open>null\<close> to the transport reference,
  \<^verbatim>\<open>Signal.clearData\<close> and \<^verbatim>\<open>stop\<close>, none of which changes anything, and it invokes no
  operation of a transport.\<close>

theorem dispose_idempotent:
  "(dispose (dispose s))\<lparr>history := hs\<rparr> = (dispose s)\<lparr>history := hs\<rparr>
   \<and> history (dispose (dispose s)) =
       history (dispose s) @ [PollDispose, SocketRefWrite None, SignalClearData, StreamStop]
   \<and> (dispose (run evs (dispose s)))\<lparr>history := hs\<rparr> = (run evs (dispose s))\<lparr>history := hs\<rparr>
   \<and> history (dispose (run evs (dispose s))) =
       history (run evs (dispose s)) @ [PollDispose, SocketRefWrite None, SignalClearData, StreamStop]"
proof -
  have a: "torn_down (dispose s)" by (rule torn_down_dispose)
  have b: "torn_down (run evs (dispose s))" by (simp add: torn_down_run torn_down_dispose)
  show ?thesis
    by (simp add: dispose_torn_down [OF a] dispose_torn_down [OF b])
qed

theorem dispose_idempotent_witness:
  "(dispose (dispose connected_stream))\<lparr>history := []\<rparr> = (dispose connected_stream)\<lparr>history := []\<rparr>
   \<and> sockets (dispose (dispose connected_stream)) 7 = blank_ws\<lparr>ws_closed := True\<rparr>"
proof -
  note t = dispose_idempotent [where s = connected_stream and hs = "[]" and evs = "[]"]
  then have e: "(dispose (dispose connected_stream))\<lparr>history := []\<rparr>
      = (dispose connected_stream)\<lparr>history := []\<rparr>" by blast
  have "sockets ((dispose (dispose connected_stream))\<lparr>history := []\<rparr>) 7
      = sockets ((dispose connected_stream)\<lparr>history := []\<rparr>) 7"
    by (simp only: e)
  then have "sockets (dispose (dispose connected_stream)) 7 = sockets (dispose connected_stream) 7"
    by simp
  also have "\<dots> = blank_ws\<lparr>ws_closed := True\<rparr>"
    by (simp add: dispose_def Let_def prim_defs connected_stream_fields blank_ws_def)
  finally show ?thesis using e by simp
qed

text \<open>C8. The disposed-state invariant (once \<^verbatim>\<open>dispose()\<close> has completed the stream is
  disposed and stores no transport, for good) is not kept by \<^verbatim>\<open>reconnect\<close> when the
  connector itself calls \<^verbatim>\<open>dispose()\<close>: \<^verbatim>\<open>reconnect\<close> reads \<^verbatim>\<open>isDisposed\<close> before it calls
  the connector and not after. On the stream below, the connector opens the socket at
  reference 7 and disposes the stream; \<^verbatim>\<open>dispose()\<close> runs to its end (the Poller is
  disposed, the reference is cleared, the view is stopped), then \<^verbatim>\<open>reconnect\<close> stores the
  new socket and installs its two handlers on it. The stream is left disposed with a
  stored transport that was never closed, and \<^verbatim>\<open>send\<close> and \<^verbatim>\<open>reconnect\<close>, which do nothing
  on a disposed stream, leave it there.\<close>

theorem dispose_inside_connector_leaves_transport:
  "\<not> isDisposed fresh_stream
   \<and> socket fresh_stream = None
   \<and> isDisposed (snd (reconnect_with [CallDispose] fresh_stream))
   \<and> socket (snd (reconnect_with [CallDispose] fresh_stream)) = Some 7
   \<and> sockets (snd (reconnect_with [CallDispose] fresh_stream)) 7 =
       blank_ws\<lparr>ws_onopen := Some (UserFn 5), ws_onclose := Some (RejectWith 0),
                ws_onmessage := Some (UserFn 3)\<rparr>
   \<and> ws_closed (sockets (snd (reconnect_with [CallDispose] fresh_stream)) 7) = False
   \<and> history (snd (reconnect_with [CallDispose] fresh_stream)) =
       [OnMessageFactoryCall 3, ConnectorCall,
        PollDispose, SocketRefWrite None, SignalClearData, StreamStop,
        SocketRefWrite (Some 7), SlotWrite 7 OnClose (Some (RejectWith 0)),
        SlotWrite 7 OnMessage (Some (UserFn 3))]
   \<and> isDisposed (run [Send ''z'', PollTick] (snd (reconnect_with [CallDispose] fresh_stream)))
   \<and> socket (run [Send ''z'', PollTick] (snd (reconnect_with [CallDispose] fresh_stream)))
       = Some 7"
proof -
  let ?t = "snd (reconnect_with [CallDispose] fresh_stream)"
  have live: "\<not> isDisposed fresh_stream" by (rule fresh_stream_live)
  have none: "socket fresh_stream = None" by (simp add: fresh_stream_def)
  have len: "length (promises fresh_stream) = 0" by (simp add: fresh_stream_def)
  note r0 = reconnect_with_ok [OF fresh_stream_live fresh_stream_connector, of "[CallDispose]",
      unfolded len]
  have r: "?t =
      set_slot 7 OnMessage (onmessage fresh_stream)
        (set_slot 7 OnClose (Some (RejectWith 0))
          (set_socket (Some 7)
            (reenter [CallDispose]
              (logged ConnectorCall
                (fresh_stream\<lparr>promises := promises fresh_stream @ [Pending],
                   sockets := (\<lambda>a. blank_ws)(7 := blank_ws\<lparr>ws_onopen := Some (UserFn 5)\<rparr>)\<rparr>)))))"
    by (simp only: r0 snd_conv)
  have d: "isDisposed ?t"
    unfolding r by (simp add: dispose_def Let_def prim_defs fresh_stream_def)
  have s: "socket ?t = Some 7"
    unfolding r by (simp add: dispose_def Let_def prim_defs fresh_stream_def)
  have w: "sockets ?t 7 =
       blank_ws\<lparr>ws_onopen := Some (UserFn 5), ws_onclose := Some (RejectWith 0),
                ws_onmessage := Some (UserFn 3)\<rparr>"
    unfolding r by (simp add: dispose_def Let_def prim_defs fresh_stream_def)
  have c: "ws_closed (sockets ?t 7) = False"
    by (simp add: w blank_ws_def)
  have h: "history ?t =
       [OnMessageFactoryCall 3, ConnectorCall,
        PollDispose, SocketRefWrite None, SignalClearData, StreamStop,
        SocketRefWrite (Some 7), SlotWrite 7 OnClose (Some (RejectWith 0)),
        SlotWrite 7 OnMessage (Some (UserFn 3))]"
    unfolding r by (simp add: dispose_def Let_def prim_defs fresh_stream_def)
  have e: "run [Send ''z'', PollTick] ?t = ?t"
    using d by (simp add: send_disposed reconnect_disposed)
  show ?thesis
    using live none d s w c h unfolding e by blast
qed

text \<open>When \<^verbatim>\<open>dispose()\<close> is called between the operations of the stream, and not by a
  connector in the middle of \<^verbatim>\<open>reconnect\<close>, disposal is terminal: after it and after any
  events, those with a connector that calls back into the stream included,
  \<^verbatim>\<open>isDisposed\<close> is true, the Poller is disposed and the stored transport reference is
  \<^verbatim>\<open>null\<close>. And \<^verbatim>\<open>isDisposed\<close>, once true, stays true under every event.\<close>

lemma disposal_between_operations_is_terminal:
  "isDisposed (run evs (dispose s))
   \<and> poll_isDisposed (connection (run evs (dispose s)))
   \<and> socket (run evs (dispose s)) = None"
proof -
  have "torn_down (run evs (dispose s))" by (simp add: torn_down_run torn_down_dispose)
  then show ?thesis by (simp add: torn_down_def isDisposed_def)
qed

lemma isDisposed_step: "isDisposed s \<Longrightarrow> isDisposed (step e s)"
proof (cases e)
  case (Send d)
  assume "isDisposed s"
  then show ?thesis using Send by (simp add: send_disposed)
next
  case Dispose
  then show ?thesis by (simp add: torn_down_dispose [unfolded torn_down_def])
next
  case PollTick
  assume "isDisposed s"
  then show ?thesis using PollTick by (simp add: reconnect_disposed)
next
  case (SocketClosed a)
  assume "isDisposed s"
  then show ?thesis using SocketClosed by (simp add: isDisposed_def fire_close_frame)
next
  case (PollTickCalling cs)
  assume "isDisposed s"
  then show ?thesis using PollTickCalling by (simp add: reconnect_with_disposed)
qed

lemma isDisposed_run: "isDisposed s \<Longrightarrow> isDisposed (run evs s)"
  by (induction evs arbitrary: s) (simp_all add: isDisposed_step)

subsection \<open>reconnect\<close>

text \<open>In this subsection \<^verbatim>\<open>reconnect\<close> runs with a connector that makes no call on the
  stream; the last subsection extends the facts about the returned promise and about
  the slots written to connectors that do.\<close>

text \<open>C4. On a disposed stream \<^verbatim>\<open>reconnect()\<close> returns a promise that is already fulfilled
  and leaves the whole state as it was: the transport factory is not called (the effect
  history and the store of web sockets are unchanged), no transport is created, no field
  changes.\<close>

theorem reconnect_disposed_is_noop:
  "isDisposed s \<Longrightarrow> reconnect s = (Immediate Fulfilled, s)"
  by (simp add: reconnect_def reconnect_with_def)

theorem reconnect_disposed_is_noop_witness:
  "isDisposed (dispose fresh_stream)
   \<and> reconnect (dispose fresh_stream) = (Immediate Fulfilled, dispose fresh_stream)"
proof -
  have h: "isDisposed (dispose fresh_stream)"
    by (simp add: fresh_stream_def dispose_def Let_def prim_defs)
  show ?thesis using h reconnect_disposed_is_noop [OF h] by simp
qed

text \<open>C3. When \<^verbatim>\<open>reconnect()\<close> runs on a stream that is not disposed and the transport
  factory returns a transport, the promise it returns is a new pending promise, and the
  close slot of the new transport holds the closure that rejects it. Whatever events
  follow, that promise is never fulfilled: it is pending or rejected with the error
  "socket stream has closed". The only event that takes it from pending to settled is a
  transport reporting closure while its close slot holds that closure; and the new
  transport reporting closure does reject it with that error.\<close>

theorem reconnect_future_only_fails_by_close:
  assumes "\<not> isDisposed s" and "connector s (sockets s) = (Inr a, ws)"
  shows "fst (reconnect s) = Cell (length (promises s))
   \<and> promises (snd (reconnect s)) ! length (promises s) = Pending
   \<and> ws_onclose (sockets (snd (reconnect s)) a) = Some (RejectWith (length (promises s)))
   \<and> (\<forall>evs. promises (run evs (snd (reconnect s))) ! length (promises s) \<noteq> Fulfilled)
   \<and> (\<forall>evs. promises (run evs (snd (reconnect s))) ! length (promises s) = Pending
          \<or> promises (run evs (snd (reconnect s))) ! length (promises s)
               = Rejected (Error ''socket stream has closed''))
   \<and> (\<forall>evs e. promises (run evs (snd (reconnect s))) ! length (promises s) = Pending
          \<and> promises (step e (run evs (snd (reconnect s)))) ! length (promises s) \<noteq> Pending
        \<longrightarrow> (\<exists>b. e = SocketClosed b
               \<and> ws_onclose (sockets (run evs (snd (reconnect s))) b)
                    = Some (RejectWith (length (promises s)))))
   \<and> promises (fire_close a (snd (reconnect s))) ! length (promises s)
        = Rejected (Error ''socket stream has closed'')"
proof -
  let ?p = "length (promises s)"
  let ?s' = "snd (reconnect s)"
  note r = reconnect_live_ok [OF assms]
  have c1: "fst (reconnect s) = Cell ?p" by (simp add: r)
  have len: "?p < length (promises ?s')" by (simp add: r)
  have c2: "promises ?s' ! ?p = Pending" by (simp add: r)
  have c3: "ws_onclose (sockets ?s' a) = Some (RejectWith ?p)" by (simp add: r)
  have inv: "promises (run evs ?s') ! ?p = Pending
      \<or> promises (run evs ?s') ! ?p = Rejected socket_stream_has_closed" for evs
    by (rule run_promise [OF len]) (simp add: c2)
  have c4: "promises (run evs ?s') ! ?p \<noteq> Fulfilled" for evs
    using inv [of evs] by auto
  have c6: "\<exists>b. e = SocketClosed b \<and> ws_onclose (sockets (run evs ?s') b) = Some (RejectWith ?p)"
    if "promises (run evs ?s') ! ?p = Pending"
      and "promises (step e (run evs ?s')) ! ?p \<noteq> Pending" for evs e
  proof -
    have "?p < length (promises (run evs ?s'))"
      using len run_promises_length [of ?s' evs] by simp
    from step_promise [OF this, of e] that show ?thesis by auto
  qed
  have c7: "promises (fire_close a ?s') ! ?p = Rejected socket_stream_has_closed"
    using c2 c3 len by (simp add: fire_close_def reject_def)
  show ?thesis
    using c1 c2 c3 c4 inv c6 c7 unfolding socket_stream_has_closed_def by blast
qed

theorem reconnect_future_only_fails_by_close_witness:
  "\<not> isDisposed fresh_stream
   \<and> connector fresh_stream (sockets fresh_stream)
       = (Inr 7, (\<lambda>a. blank_ws)(7 := blank_ws\<lparr>ws_onopen := Some (UserFn 5)\<rparr>))
   \<and> fst (reconnect fresh_stream) = Cell 0
   \<and> promises (snd (reconnect fresh_stream)) ! 0 = Pending
   \<and> ws_onclose (sockets (snd (reconnect fresh_stream)) 7) = Some (RejectWith 0)
   \<and> promises (run [Send ''a'', PollTick] (snd (reconnect fresh_stream))) ! 0 \<noteq> Fulfilled
   \<and> promises (step (SocketClosed 7) (snd (reconnect fresh_stream))) ! 0 \<noteq> Pending
   \<and> promises (fire_close 7 (snd (reconnect fresh_stream))) ! 0
       = Rejected (Error ''socket stream has closed'')"
proof -
  have h1: "\<not> isDisposed fresh_stream" by (rule fresh_stream_live)
  have h2: "connector fresh_stream (sockets fresh_stream)
       = (Inr 7, (\<lambda>a. blank_ws)(7 := blank_ws\<lparr>ws_onopen := Some (UserFn 5)\<rparr>))"
    by (rule fresh_stream_connector)
  have len: "length (promises fresh_stream) = 0" by (simp add: fresh_stream_def)
  note t = reconnect_future_only_fails_by_close [OF h1 h2, unfolded len]
  from t have nf: "\<forall>evs. promises (run evs (snd (reconnect fresh_stream))) ! 0 \<noteq> Fulfilled"
    by blast
  from t have rest: "fst (reconnect fresh_stream) = Cell 0
     \<and> promises (snd (reconnect fresh_stream)) ! 0 = Pending
     \<and> ws_onclose (sockets (snd (reconnect fresh_stream)) 7) = Some (RejectWith 0)
     \<and> promises (fire_close 7 (snd (reconnect fresh_stream))) ! 0
         = Rejected (Error ''socket stream has closed'')"
    by blast
  then have settled: "promises (step (SocketClosed 7) (snd (reconnect fresh_stream))) ! 0 \<noteq> Pending"
    by simp
  show ?thesis
    using h1 h2 rest settled spec [OF nf, of "[Send ''a'', PollTick]"] by blast
qed

text \<open>C6. When \<^verbatim>\<open>reconnect()\<close> runs on a stream that is not disposed and the transport
  factory throws, the exception leaves the executor but not \<^verbatim>\<open>reconnect\<close>: the call
  returns a promise, that promise is rejected with the error thrown and stays so, as the
  promise of a closed transport is rejected; the stored transport reference is unchanged
  and nothing but the factory has been called.\<close>

theorem reconnect_factory_throw_rejects:
  assumes "\<not> isDisposed s" and "connector s (sockets s) = (Inl e, ws)"
  shows "fst (reconnect_executor (length (promises s)) (s\<lparr>promises := promises s @ [Pending]\<rparr>)) = Inl e
   \<and> fst (reconnect s) = Cell (length (promises s))
   \<and> promise_state_of (snd (reconnect s)) (fst (reconnect s)) = Rejected e
   \<and> (\<forall>evs. promise_state_of (run evs (snd (reconnect s))) (fst (reconnect s)) = Rejected e)
   \<and> socket (snd (reconnect s)) = socket s
   \<and> history (snd (reconnect s)) = history s @ [ConnectorCall]"
proof -
  let ?p = "length (promises s)"
  let ?s' = "snd (reconnect s)"
  note r = reconnect_live_throw [OF assms]
  have c0: "fst (reconnect_executor ?p (s\<lparr>promises := promises s @ [Pending]\<rparr>)) = Inl e"
    using assms(2) by (simp add: reconnect_executor_def reconnect_executor_with_def)
  have c1: "fst (reconnect s) = Cell ?p" by (simp add: r)
  have len: "?p < length (promises ?s')" by (simp add: r)
  have c2: "promises ?s' ! ?p = Rejected e" by (simp add: r)
  have c3: "promises (run evs ?s') ! ?p = Rejected e" for evs
    using run_promise_settled [OF len, of evs] c2 by simp
  show ?thesis
    using c0 c1 c2 c3 by (simp add: promise_state_of_def r)
qed

theorem reconnect_factory_throw_rejects_witness:
  "\<not> isDisposed refused_stream
   \<and> connector refused_stream (sockets refused_stream)
        = (Inl (DOMException ''SecurityError''), (\<lambda>a. blank_ws))
   \<and> fst (reconnect refused_stream) = Cell 0
   \<and> promise_state_of (snd (reconnect refused_stream)) (fst (reconnect refused_stream))
        = Rejected (DOMException ''SecurityError'')
   \<and> socket (snd (reconnect refused_stream)) = None"
proof -
  have h1: "\<not> isDisposed refused_stream"
    by (simp add: refused_stream_def fresh_stream_def isDisposed_def)
  have h2: "connector refused_stream (sockets refused_stream)
        = (Inl (DOMException ''SecurityError''), (\<lambda>a. blank_ws))"
    by (simp add: refused_stream_def fresh_stream_def failing_connector_def)
  have len: "length (promises refused_stream) = 0"
    by (simp add: refused_stream_def fresh_stream_def)
  have sock: "socket refused_stream = None"
    by (simp add: refused_stream_def fresh_stream_def)
  show ?thesis
    using h1 h2 reconnect_factory_throw_rejects [OF h1 h2, unfolded len sock] by blast
qed

text \<open>C10. When \<^verbatim>\<open>reconnect()\<close> runs on a stream that is not disposed and the transport
  factory returns the transport \<open>a\<close>, leaving the store of web sockets as \<open>ws\<close>, the
  call writes two slots of \<open>a\<close> and nothing else in that store: the close slot and the
  message slot. The open and error slots of \<open>a\<close> keep the values the factory left, every
  other web socket is as the factory left it, and so the transport stored before, when
  it is not the one the factory returned, keeps its four slots and is not closed: the
  call invokes no \<^verbatim>\<open>close()\<close> at all.\<close>

theorem reconnect_writes_two_slots_of_new_socket_only:
  assumes "\<not> isDisposed s" and "connector s (sockets s) = (Inr a, ws)"
  shows "sockets (snd (reconnect s)) =
       ws(a := (ws a)\<lparr>ws_onclose := Some (RejectWith (length (promises s))),
                       ws_onmessage := onmessage s\<rparr>)
   \<and> ws_onopen (sockets (snd (reconnect s)) a) = ws_onopen (ws a)
   \<and> ws_onerror (sockets (snd (reconnect s)) a) = ws_onerror (ws a)
   \<and> ws_closed (sockets (snd (reconnect s)) a) = ws_closed (ws a)
   \<and> (\<forall>b. b \<noteq> a \<longrightarrow> sockets (snd (reconnect s)) b = ws b)
   \<and> (\<forall>b. socket s = Some b \<and> b \<noteq> a \<and> ws b = sockets s b
            \<longrightarrow> sockets (snd (reconnect s)) b = sockets s b)
   \<and> socket (snd (reconnect s)) = Some a
   \<and> history (snd (reconnect s)) =
       history s @ [ConnectorCall, SocketRefWrite (Some a),
                    SlotWrite a OnClose (Some (RejectWith (length (promises s)))),
                    SlotWrite a OnMessage (onmessage s)]"
  by (simp add: reconnect_live_ok [OF assms])

theorem reconnect_writes_two_slots_of_new_socket_only_witness:
  "\<not> isDisposed connected_stream
   \<and> socket connected_stream = Some 7
   \<and> connector connected_stream (sockets connected_stream) =
       (Inr 8, (sockets connected_stream)(8 := blank_ws\<lparr>ws_onopen := Some (UserFn 5)\<rparr>))
   \<and> ws_onopen (sockets (snd (reconnect connected_stream)) 8) = Some (UserFn 5)
   \<and> ws_onerror (sockets (snd (reconnect connected_stream)) 8) = None
   \<and> ws_onclose (sockets (snd (reconnect connected_stream)) 8) = Some (RejectWith 1)
   \<and> ws_onmessage (sockets (snd (reconnect connected_stream)) 8) = Some (UserFn 3)
   \<and> sockets (snd (reconnect connected_stream)) 7 = sockets connected_stream 7
   \<and> ws_closed (sockets (snd (reconnect connected_stream)) 7) = False"
proof -
  have h1: "\<not> isDisposed connected_stream" by (simp add: connected_stream_fields)
  have h2: "connector connected_stream (sockets connected_stream) =
       (Inr 8, (sockets connected_stream)(8 := blank_ws\<lparr>ws_onopen := Some (UserFn 5)\<rparr>))"
    by (simp add: connected_stream_eq fresh_stream_def example_connector_def)
  have len: "length (promises connected_stream) = 1"
    by (simp add: connected_stream_eq)
  have om: "onmessage connected_stream = Some (UserFn 3)"
    by (simp add: connected_stream_eq fresh_stream_def)
  note t = reconnect_writes_two_slots_of_new_socket_only [OF h1 h2, unfolded len om]
  from t have a: "sockets (snd (reconnect connected_stream)) =
       ((sockets connected_stream)(8 := blank_ws\<lparr>ws_onopen := Some (UserFn 5)\<rparr>))
         (8 := (((sockets connected_stream)(8 := blank_ws\<lparr>ws_onopen := Some (UserFn 5)\<rparr>)) 8)
                 \<lparr>ws_onclose := Some (RejectWith 1), ws_onmessage := Some (UserFn 3)\<rparr>)"
    by blast
  show ?thesis using h1 h2 by (simp add: a blank_ws_def connected_stream_fields)
qed

subsection \<open>The constructor\<close>

text \<open>C9. The constructor stores the transport factory. Without an \<^verbatim>\<open>onmessage\<close> factory
  it stores \<^verbatim>\<open>null\<close> as the hook and invokes no factory. With one that returns, it invokes
  it once, on the stream's own reference, and stores what it returns. No later event
  invokes the factory again or changes the stored hook or the transport factory, and
  every reconnection that obtains a transport writes the stored hook (\<^verbatim>\<open>null\<close> when there
  is none) to the message slot of that transport.\<close>

theorem construct_stores_connector_and_hook:
  "(opt_onmessage opts = None \<longrightarrow>
      (\<exists>s. construct this sndr opts ws = Inr s \<and> connector s = opt_connector opts
          \<and> onmessage s = None \<and> filter is_factory_call (history s) = []))
   \<and> (opt_onmessage opts = Some f \<and> f this = Inr h \<longrightarrow>
      (\<exists>s. construct this sndr opts ws = Inr s \<and> connector s = opt_connector opts
          \<and> onmessage s = h \<and> filter is_factory_call (history s) = [OnMessageFactoryCall this]))
   \<and> (construct this sndr opts ws = Inr s \<longrightarrow>
        (\<forall>evs. onmessage (run evs s) = onmessage s
              \<and> connector (run evs s) = opt_connector opts
              \<and> filter is_factory_call (history (run evs s)) = filter is_factory_call (history s))
      \<and> (\<forall>evs a ws'. \<not> isDisposed (run evs s)
              \<and> connector (run evs s) (sockets (run evs s)) = (Inr a, ws')
            \<longrightarrow> ws_onmessage (sockets (snd (reconnect (run evs s))) a) = onmessage s))"
proof -
  have c1: "\<exists>s. construct this sndr opts ws = Inr s \<and> connector s = opt_connector opts
          \<and> onmessage s = None \<and> filter is_factory_call (history s) = []"
    if "opt_onmessage opts = None"
    using that by (simp add: construct_def)
  have c2: "\<exists>s. construct this sndr opts ws = Inr s \<and> connector s = opt_connector opts
          \<and> onmessage s = h \<and> filter is_factory_call (history s) = [OnMessageFactoryCall this]"
    if "opt_onmessage opts = Some f \<and> f this = Inr h"
    using that by (cases h) (simp_all add: construct_def logged_def)
  have conn: "connector s = opt_connector opts" if "construct this sndr opts ws = Inr s"
    using that
    by (auto simp: construct_def Let_def logged_def split: option.splits sum.splits)
  have c3: "onmessage (run evs s) = onmessage s
              \<and> connector (run evs s) = opt_connector opts
              \<and> filter is_factory_call (history (run evs s)) = filter is_factory_call (history s)"
    if "construct this sndr opts ws = Inr s" for evs
    using conn [OF that] by (simp add: run_onmessage run_factory_calls)
  have c4: "ws_onmessage (sockets (snd (reconnect (run evs s))) a) = onmessage s"
    if "\<not> isDisposed (run evs s) \<and> connector (run evs s) (sockets (run evs s)) = (Inr a, ws')"
    for evs a ws'
  proof -
    from that have l: "\<not> isDisposed (run evs s)"
      and k: "connector (run evs s) (sockets (run evs s)) = (Inr a, ws')" by simp_all
    show ?thesis by (simp add: reconnect_live_ok [OF l k] run_onmessage)
  qed
  show ?thesis using c1 c2 c3 c4 by blast
qed

theorem construct_stores_connector_and_hook_witness:
  "opt_onmessage example_options = Some (\<lambda>this. Inr (Some (UserFn this)))
   \<and> construct 3 4 example_options (\<lambda>a. blank_ws)
        = Inr (fresh_stream\<lparr>listeners := [], awaiting := []\<rparr>)
   \<and> onmessage (fresh_stream\<lparr>listeners := [], awaiting := []\<rparr>) = Some (UserFn 3)
   \<and> onmessage (run [PollTick, SocketClosed 7, PollTick]
        (fresh_stream\<lparr>listeners := [], awaiting := []\<rparr>)) = Some (UserFn 3)
   \<and> ws_onmessage (sockets (snd (reconnect (fresh_stream\<lparr>listeners := [], awaiting := []\<rparr>))) 7)
        = Some (UserFn 3)
   \<and> opt_onmessage (example_options\<lparr>opt_onmessage := None\<rparr>) = None
   \<and> (\<exists>s. construct 3 4 (example_options\<lparr>opt_onmessage := None\<rparr>) (\<lambda>a. blank_ws) = Inr s
          \<and> onmessage s = None \<and> filter is_factory_call (history s) = [])"
proof -
  let ?s = "fresh_stream\<lparr>listeners := [], awaiting := []\<rparr>"
  have h1: "opt_onmessage example_options = Some (\<lambda>this. Inr (Some (UserFn this)))"
    by (simp add: example_options_def)
  have h2: "construct 3 4 example_options (\<lambda>a. blank_ws) = Inr ?s"
    by (simp add: construct_def example_options_def fresh_stream_def new_Poll_def logged_def)
  have h3: "onmessage ?s = Some (UserFn 3)" by (simp add: fresh_stream_def)
  have h4: "\<not> isDisposed (run [] ?s)
      \<and> connector (run [] ?s) (sockets (run [] ?s))
          = (Inr 7, (\<lambda>a. blank_ws)(7 := blank_ws\<lparr>ws_onopen := Some (UserFn 5)\<rparr>))"
    by (simp add: fresh_stream_def isDisposed_def example_connector_def blank_ws_def)
  have h5: "opt_onmessage (example_options\<lparr>opt_onmessage := None\<rparr>) = None" by simp
  note t = construct_stores_connector_and_hook
    [where opts = example_options and this = 3 and sndr = 4 and ws = "\<lambda>a. blank_ws"
       and s = ?s]
  from t h2 have "\<forall>evs. onmessage (run evs ?s) = onmessage ?s" by blast
  then have a: "onmessage (run [PollTick, SocketClosed 7, PollTick] ?s) = onmessage ?s"
    by (rule spec)
  from t h2 h4 have "ws_onmessage (sockets (snd (reconnect (run [] ?s))) 7) = onmessage ?s"
    by blast
  then have b: "ws_onmessage (sockets (snd (reconnect ?s)) 7) = Some (UserFn 3)"
    using h3 by simp
  from construct_stores_connector_and_hook
    [where opts = "example_options\<lparr>opt_onmessage := None\<rparr>" and this = 3 and sndr = 4
       and ws = "\<lambda>a. blank_ws"] h5
  have c: "\<exists>s. construct 3 4 (example_options\<lparr>opt_onmessage := None\<rparr>) (\<lambda>a. blank_ws) = Inr s
          \<and> onmessage s = None \<and> filter is_factory_call (history s) = []"
    by blast
  show ?thesis using h1 h2 h3 a b h5 c by simp
qed

subsection \<open>Connectors that call back into the stream\<close>

text \<open>What \<^verbatim>\<open>reconnect\<close> does to the promise it returns and to the web sockets does not
  depend on the calls the connector makes on the stream. With any such calls, and a
  connector that returns a transport, the promise is a new pending one held by the
  close slot of that transport, and it is only ever pending or rejected with "socket
  stream has closed"; with a connector that throws, the promise is rejected with the
  error thrown; and relative to the state the connector leaves, calls included, only the
  close and message slots of the returned transport are written.\<close>

lemma reconnect_with_future:
  assumes "\<not> isDisposed s" and "connector s (sockets s) = (Inr a, ws)"
  shows "fst (reconnect_with cs s) = Cell (length (promises s))
   \<and> promises (snd (reconnect_with cs s)) ! length (promises s) = Pending
   \<and> ws_onclose (sockets (snd (reconnect_with cs s)) a)
        = Some (RejectWith (length (promises s)))
   \<and> (promises (run evs (snd (reconnect_with cs s))) ! length (promises s) = Pending
        \<or> promises (run evs (snd (reconnect_with cs s))) ! length (promises s)
             = Rejected socket_stream_has_closed)"
proof -
  let ?p = "length (promises s)"
  let ?s' = "snd (reconnect_with cs s)"
  note r = reconnect_with_ok [OF assms, of cs]
  have ps: "promises ?s' = promises s @ [Pending]"
    by (simp add: r set_slot_def set_socket_def logged_def reenter_frame)
  have c1: "fst (reconnect_with cs s) = Cell ?p" by (simp add: r)
  have c3: "ws_onclose (sockets ?s' a) = Some (RejectWith ?p)"
    by (simp add: r set_slot_def set_socket_def logged_def)
  have len: "?p < length (promises ?s')" by (simp add: ps)
  have c2: "promises ?s' ! ?p = Pending" by (simp add: ps)
  have "promises (run evs ?s') ! ?p = Pending
      \<or> promises (run evs ?s') ! ?p = Rejected socket_stream_has_closed"
    by (rule run_promise [OF len]) (simp add: c2)
  with c1 c2 c3 show ?thesis by blast
qed

lemma reconnect_with_throw_rejects:
  assumes "\<not> isDisposed s" and "connector s (sockets s) = (Inl e, ws)"
  shows "fst (reconnect_with cs s) = Cell (length (promises s))
   \<and> promises (snd (reconnect_with cs s)) ! length (promises s) = Rejected e
   \<and> promises (run evs (snd (reconnect_with cs s))) ! length (promises s) = Rejected e"
proof -
  let ?p = "length (promises s)"
  let ?s' = "snd (reconnect_with cs s)"
  note r = reconnect_with_throw [OF assms, of cs]
  have ps: "promises ?s' = promises s @ [Rejected e]" by (simp add: r)
  have len: "?p < length (promises ?s')" by (simp add: ps)
  have c2: "promises ?s' ! ?p = Rejected e" by (simp add: ps)
  have "promises (run evs ?s') ! ?p = promises ?s' ! ?p"
    by (rule run_promise_settled [OF len]) (simp add: c2)
  with c2 show ?thesis by (simp add: r)
qed

lemma reconnect_with_writes_two_slots:
  assumes "\<not> isDisposed s" and "connector s (sockets s) = (Inr a, ws)"
    and "s0 = reenter cs
           (logged ConnectorCall (s\<lparr>promises := promises s @ [Pending], sockets := ws\<rparr>))"
  shows "sockets (snd (reconnect_with cs s)) =
       (sockets s0)(a := (sockets s0 a)\<lparr>ws_onclose := Some (RejectWith (length (promises s))),
                                        ws_onmessage := onmessage s\<rparr>)
   \<and> history (snd (reconnect_with cs s)) =
       history s0 @ [SocketRefWrite (Some a),
                     SlotWrite a OnClose (Some (RejectWith (length (promises s)))),
                     SlotWrite a OnMessage (onmessage s)]"
  by (simp add: reconnect_with_ok [OF assms(1,2), of cs] assms(3)
      set_slot_def set_socket_def logged_def)

end
